theory Spec2Isabelle
  imports Main "HOL-Library.Word"
begin

section \<open>Outcomes of Go calls\<close>

text \<open>
  A Go call either returns its results or panics. The two run-time panics the router
  package can raise are a nil pointer dereference (a field read through a nil message
  pointer) and an index out of range (an element read from an empty slice).
\<close>

datatype panic = NilDereference | IndexOutOfRange

datatype 'a outcome = Panics panic | Returns 'a

section \<open>The ad-hoc rule messages\<close>

text \<open>
  Modelled from the spec: the generated protobuf structs of the ad-hoc rules are not
  among the sources; their fields are taken from the uses in the router and in the
  integration test. \<open>Adhoc\<close> has the string \<open>DnsNameMatcher\<close> and the message pointer
  \<open>Port\<close>, which is nil when the rule carries no port message; \<open>Adhoc_Port\<close> has
  \<open>Default\<close>, the repeated \<open>Allowed\<close> and the repeated message \<open>AllowedRanges\<close>, each
  range with \<open>From\<close> and \<open>To\<close>. Ports are compared with a \<open>uint32\<close>, which is the type
  taken for all four port fields. The elements of the repeated message fields and of the
  rule list itself are taken to be non-nil, as decoding a configuration produces them.
\<close>

type_synonym uint32 = "32 word"

record Adhoc_Port_Range =
  From :: uint32
  To :: uint32

record Adhoc_Port =
  Default :: uint32
  Allowed :: "uint32 list"
  AllowedRanges :: "Adhoc_Port_Range list"

record Adhoc =
  DnsNameMatcher :: string
  Port :: "Adhoc_Port option"

section \<open>Errors\<close>

text \<open>
  \<open>strconv.ParseInt\<close> fails with a \<open>*NumError\<close> that carries the text it was given and
  one of the two causes \<open>ErrSyntax\<close> and \<open>ErrRange\<close>.
\<close>

datatype strconv_err = ErrSyntax | ErrRange

datatype NumError = NumError string strconv_err

text \<open>
  The three messages the addresser formats, kept as the format and its argument:
  \<open>"malformed port number: %v"\<close> with the parse error, \<open>"port %d is not allowed"\<close>
  with the port, and \<open>"cannot resolve host"\<close>.
\<close>

datatype message =
    MalformedPortNumber NumError
  | PortNotAllowed int
  | CannotResolveHost

text \<open>
  Modelled from the spec: \<open>NewError\<close> and \<open>ErrRouteNotFound\<close> are declared in a file of
  package router that is not among the sources. \<open>NewError\<close> is taken as the constructor
  of an error from an HTTP status code and a message, \<open>ErrRouteNotFound\<close> as the error
  value for "no rule matched", different from every error the addresser builds itself.
\<close>

datatype error = NewError nat message | ErrRouteNotFound

definition StatusBadRequest :: nat where
  "StatusBadRequest = 400"

definition StatusBadGateway :: nat where
  "StatusBadGateway = 502"

section \<open>Library functions of Go\<close>

text \<open>\<open>strings.LastIndex(s, ":")\<close>, for a one-byte separator: the last index, or -1.\<close>

fun LastIndex :: "string \<Rightarrow> char \<Rightarrow> int" where
  "LastIndex [] c = - 1"
| "LastIndex (x # xs) c =
     (let i = LastIndex xs c
      in if i \<noteq> - 1 then i + 1 else if x = c then 0 else - 1)"

definition is_digit :: "char \<Rightarrow> bool" where
  "is_digit c = ((48::nat) \<le> of_char c \<and> of_char c \<le> (57::nat))"

definition digit_val :: "char \<Rightarrow> nat" where
  "digit_val c = of_char c - 48"

text \<open>
  \<open>strconv.ParseUint(s, 10, 16)\<close>: the digits are read from the left; a byte that is
  no decimal digit is a syntax error, a value beyond \<open>1<<16 - 1\<close> a range error, and
  whichever the scan meets first is reported.
\<close>

fun ParseUint_loop :: "nat \<Rightarrow> string \<Rightarrow> strconv_err + nat" where
  "ParseUint_loop n [] = Inr n"
| "ParseUint_loop n (c # cs) =
     (if \<not> is_digit c then Inl ErrSyntax
      else (let n1 = n * 10 + digit_val c
            in if n1 > 65535 then Inl ErrRange else ParseUint_loop n1 cs))"

definition ParseUint :: "string \<Rightarrow> strconv_err + nat" where
  "ParseUint s = (if s = [] then Inl ErrSyntax else ParseUint_loop 0 s)"

text \<open>
  \<open>strconv.ParseInt(s, 10, 16)\<close>: an optional sign, then \<open>ParseUint\<close>; the result has
  to fit a signed 16-bit integer.
\<close>

definition ParseInt :: "string \<Rightarrow> NumError + int" where
  "ParseInt s0 =
     (if s0 = [] then Inl (NumError s0 ErrSyntax)
      else
        (let neg = (hd s0 = CHR ''-'');
             s = (if hd s0 = CHR ''+'' \<or> hd s0 = CHR ''-'' then tl s0 else s0)
         in case ParseUint s of
              Inl e \<Rightarrow> Inl (NumError s0 e)
            | Inr un \<Rightarrow>
                if \<not> neg \<and> un \<ge> 32768 then Inl (NumError s0 ErrRange)
                else if neg \<and> un > 32768 then Inl (NumError s0 ErrRange)
                else Inr (if neg then - int un else int un)))"

text \<open>\<open>strconv.FormatInt(i, 10)\<close>: the decimal digits, after a minus sign if negative.\<close>

definition digits :: string where
  "digits = ''0123456789''"

fun formatBits :: "nat \<Rightarrow> string" where
  "formatBits n =
     (if n < 10 then [digits ! n]
      else formatBits (n div 10) @ [digits ! (n mod 10)])"

declare formatBits.simps [simp del]

definition FormatInt :: "int \<Rightarrow> string" where
  "FormatInt i = (if i < 0 then CHR ''-'' # formatBits (nat (- i)) else formatBits (nat i))"

text \<open>
  \<open>net.JoinHostPort(host, port)\<close>: a host that contains a colon is taken for an IPv6
  literal and put in brackets.
\<close>

definition JoinHostPort :: "string \<Rightarrow> string \<Rightarrow> string" where
  "JoinHostPort host port =
     (if CHR '':'' \<in> set host then ''['' @ host @ '']:'' @ port
      else host @ '':'' @ port)"

section \<open>The addresser\<close>

text \<open>
  \<open>DefaultALookup\<close> is a package variable holding the lookup function; it is a
  parameter here. It returns a slice of strings and an error, which is nil
  (\<open>None\<close>) on success.
\<close>

type_synonym 'e ALookup = "string \<Rightarrow> string list \<times> 'e option"

definition resolveHost :: "'e ALookup \<Rightarrow> string \<Rightarrow> (string \<times> error option) outcome" where
  "resolveHost DefaultALookup hostStr =
     (case DefaultALookup hostStr of
        (addrs, Some err) \<Rightarrow> Returns ('''', Some (NewError StatusBadGateway CannotResolveHost))
      | (addrs, None) \<Rightarrow>
          (case addrs of
             [] \<Rightarrow> Panics IndexOutOfRange
           | a # _ \<Rightarrow> Returns (a, None)))"

definition extractHostPort :: "string \<Rightarrow> string \<times> int \<times> error option" where
  "extractHostPort hostStr =
     (let portOffset = LastIndex hostStr CHR '':''
      in if portOffset = - 1 then (hostStr, 0, None)
         else
           (let portPart = drop (nat portOffset) hostStr
            in case ParseInt portPart of
                 Inl err \<Rightarrow> ('''', 0, Some (NewError StatusBadRequest (MalformedPortNumber err)))
               | Inr pNum \<Rightarrow> (take (nat portOffset) hostStr, pNum, None)))"

definition hostMatches :: "string \<Rightarrow> string \<Rightarrow> bool" where
  "hostMatches host matcher =
     (if matcher = [] then False
      else if hd matcher \<noteq> CHR ''*'' then host = matcher
      else host = drop 1 matcher)"

fun AllowedLoop :: "uint32 \<Rightarrow> uint32 list \<Rightarrow> bool" where
  "AllowedLoop uPort [] = False"
| "AllowedLoop uPort (p # ps) = (if p = uPort then True else AllowedLoop uPort ps)"

fun AllowedRangesLoop :: "uint32 \<Rightarrow> Adhoc_Port_Range list \<Rightarrow> bool" where
  "AllowedRangesLoop uPort [] = False"
| "AllowedRangesLoop uPort (r # rs) =
     (if From r \<le> uPort \<and> uPort \<le> To r then True else AllowedRangesLoop uPort rs)"

text \<open>
  \<open>portAllowed\<close> reads \<open>portRule.Allowed\<close> through the pointer it is given: a nil
  pointer panics. \<open>uint32(port)\<close> keeps the low 32 bits of the port.
\<close>

fun portAllowed :: "int \<Rightarrow> Adhoc_Port option \<Rightarrow> bool outcome" where
  "portAllowed port None = Panics NilDereference"
| "portAllowed port (Some portRule) =
     (let uPort = (word_of_int port :: uint32)
      in if AllowedLoop uPort (Allowed portRule) then Returns True
         else if AllowedRangesLoop uPort (AllowedRanges portRule) then Returns True
         else Returns False)"

text \<open>
  The port a rule is checked with (the block that sets \<open>portForRule\<close> in the loop of
  \<open>Address\<close>): the port of the request, and when that is 0, the default of the rule or
  80. \<open>rule.Port.Default\<close> is read only when the port is 0, and panics on a nil
  \<open>Port\<close>. \<open>int(defPort)\<close> is the unsigned value, \<open>int\<close> having 64 bits.
\<close>

fun portForRule :: "int \<Rightarrow> Adhoc_Port option \<Rightarrow> int outcome" where
  "portForRule port rulePort =
     (if port = 0 then
        (case rulePort of
           None \<Rightarrow> Panics NilDereference
         | Some p \<Rightarrow>
             (let defPort = Default p
              in if defPort \<noteq> 0 then Returns (uint defPort) else Returns 80))
      else Returns port)"

text \<open>
  The loop over the rules in \<open>Address\<close>. \<open>reqHost\<close> is \<open>req.URL.Host\<close>, which is what
  the matcher is compared with; \<open>hostName\<close> and \<open>port\<close> are the results of
  \<open>extractHostPort\<close>. The address is returned in the branch where \<open>resolveHost\<close>
  reports an error; when it reports none, the loop goes on to the next rule.
\<close>

fun Address_loop ::
  "'e ALookup \<Rightarrow> string \<Rightarrow> string \<Rightarrow> int \<Rightarrow> Adhoc list \<Rightarrow> (string \<times> error option) outcome"
where
  "Address_loop lk reqHost hostName port [] = Returns ('''', Some ErrRouteNotFound)"
| "Address_loop lk reqHost hostName port (rule # rules) =
     (if \<not> hostMatches reqHost (DnsNameMatcher rule)
      then Address_loop lk reqHost hostName port rules
      else
        (case portForRule port (Port rule) of
           Panics p \<Rightarrow> Panics p
         | Returns pfr \<Rightarrow>
             (case portAllowed pfr (Port rule) of
                Panics p \<Rightarrow> Panics p
              | Returns False \<Rightarrow>
                  Returns ('''', Some (NewError StatusBadRequest (PortNotAllowed pfr)))
              | Returns True \<Rightarrow>
                  (case resolveHost lk hostName of
                     Panics p \<Rightarrow> Panics p
                   | Returns (ipAddr, Some err) \<Rightarrow>
                       Returns (JoinHostPort ipAddr (FormatInt pfr), None)
                   | Returns (ipAddr, None) \<Rightarrow>
                       Address_loop lk reqHost hostName port rules))))"

text \<open>\<open>Address\<close>, for the rules of the addresser and the \<open>URL.Host\<close> of the request.\<close>

definition Address :: "'e ALookup \<Rightarrow> Adhoc list \<Rightarrow> string \<Rightarrow> (string \<times> error option) outcome" where
  "Address lk rules reqHost =
     (case extractHostPort reqHost of
        (hostName, port, Some err) \<Rightarrow> Returns ('''', Some err)
      | (hostName, port, None) \<Rightarrow> Address_loop lk reqHost hostName port rules)"

section \<open>The gRPC director\<close>

text \<open>
  \<open>New\<close> builds the stream director from a pool and a router. Both are interfaces whose
  implementations live elsewhere, so they are parameters: \<open>Route\<close> of the router maps
  the method name to a backend name and an error, \<open>Conn\<close> of the pool maps a backend
  name to a connection (a pointer, \<open>None\<close> when nil) and an error. Either may read and
  change state of its own (the pool keeps a cursor), which is the world \<open>'w\<close> passed
  through. The director's calls to its collaborators are recorded in order, so that what
  it calls, and how often, can be stated.
\<close>

datatype call = RouteCall string | AddFieldsCall string | ConnCall string

type_synonym ('w, 'e) Router = "string \<Rightarrow> 'w \<Rightarrow> (string \<times> 'e option) \<times> 'w"

type_synonym ('w, 'e, 'c) Pool = "string \<Rightarrow> 'w \<Rightarrow> ('c option \<times> 'e option) \<times> 'w"

definition New ::
  "('w, 'e, 'c) Pool \<Rightarrow> ('w, 'e) Router \<Rightarrow> string \<Rightarrow> 'w \<times> call list
     \<Rightarrow> ('c option \<times> 'e option) \<times> ('w \<times> call list)"
where
  "New pool router fullMethodName st =
     (case st of (w, calls) \<Rightarrow>
        (case router fullMethodName w of
           ((beName, Some err), w1) \<Rightarrow>
             ((None, Some err), (w1, calls @ [RouteCall fullMethodName]))
         | ((beName, None), w1) \<Rightarrow>
             (case pool beName w1 of
                ((cc, Some err), w2) \<Rightarrow>
                  ((None, Some err),
                   (w2, calls @ [RouteCall fullMethodName, AddFieldsCall beName, ConnCall beName]))
              | ((cc, None), w2) \<Rightarrow>
                  ((cc, None),
                   (w2, calls @ [RouteCall fullMethodName, AddFieldsCall beName, ConnCall beName])))))"

section \<open>Configurations and collaborators of the scenarios\<close>

text \<open>
  The rule of the integration test and of the end-to-end scenario; a rule for one exact
  name that allows port 80 only; rules without a port message; the port messages of the
  port authorization examples.
\<close>

definition high_ports :: Adhoc_Port where
  "high_ports = \<lparr>Default = 0, Allowed = [], AllowedRanges = [\<lparr>From = 1024, To = 65535\<rparr>]\<rparr>"

definition only_443 :: Adhoc_Port where
  "only_443 = \<lparr>Default = 0, Allowed = [443], AllowedRanges = []\<rparr>"

definition default_8080 :: Adhoc_Port where
  "default_8080 =
     \<lparr>Default = 8080, Allowed = [], AllowedRanges = [\<lparr>From = 1024, To = 65535\<rparr>]\<rparr>"

definition pods_rule :: Adhoc where
  "pods_rule = \<lparr>DnsNameMatcher = ''*.pods.test.local'', Port = Some high_ports\<rparr>"

definition svc_rule :: Adhoc where
  "svc_rule = \<lparr>DnsNameMatcher = ''svc.test.local'',
     Port = Some \<lparr>Default = 0, Allowed = [80], AllowedRanges = []\<rparr>\<rparr>"

definition svc_default_rule :: Adhoc where
  "svc_default_rule = \<lparr>DnsNameMatcher = ''svc.test.local'', Port = Some default_8080\<rparr>"

definition svc_high_rule :: Adhoc where
  "svc_high_rule = \<lparr>DnsNameMatcher = ''svc.test.local'', Port = Some high_ports\<rparr>"

definition svc_9000_rule :: Adhoc where
  "svc_9000_rule = \<lparr>DnsNameMatcher = ''svc.test.local:9000'', Port = Some high_ports\<rparr>"

definition svc_http_nil_rule :: Adhoc where
  "svc_http_nil_rule = \<lparr>DnsNameMatcher = ''svc.test.local:http'', Port = None\<rparr>"

definition nil_port_rule :: Adhoc where
  "nil_port_rule = \<lparr>DnsNameMatcher = ''svc.test.local'', Port = None\<rparr>"

definition empty_matcher_rule :: Adhoc where
  "empty_matcher_rule = \<lparr>DnsNameMatcher = '''', Port = None\<rparr>"

definition other_rule :: Adhoc where
  "other_rule = \<lparr>DnsNameMatcher = ''other.test.local'', Port = None\<rparr>"

text \<open>Lookup functions: one that resolves every name, one that fails, one that
  returns no address and no error.\<close>

definition lookup_ok :: "unit ALookup" where
  "lookup_ok h = ([''10.0.0.5''], None)"

definition lookup_fails :: "unit ALookup" where
  "lookup_fails h = ([], Some ())"

definition lookup_empty :: "unit ALookup" where
  "lookup_empty h = ([], None)"

text \<open>A router that knows one method, a pool that knows one backend and counts its
  calls in the world, and a pool without live targets.\<close>

definition static_router :: "(nat, string) Router" where
  "static_router m w =
     (if m = ''/pkg.Service/Method'' then ((''backend'', None), w)
      else (('''', Some ''unknown route to call''), w))"

definition counting_pool :: "(nat, string, string) Pool" where
  "counting_pool b w =
     (if b = ''backend'' then ((Some ''conn'', None), Suc w)
      else ((None, Some ''unknown backend''), Suc w))"

definition failing_pool :: "(nat, string, string) Pool" where
  "failing_pool b w = ((None, Some ''no live targets''), Suc w)"

section \<open>Parsing the target host\<close>

text \<open>
  \<open>LastIndex\<close> is -1 exactly when the separator does not occur; otherwise the string
  from that index on starts with the separator, which does not occur again.
\<close>

lemma LastIndex_absent: "(LastIndex s c = - 1) = (c \<notin> set s)"
proof (induction s)
  case Nil
  show ?case by simp
next
  case (Cons x xs)
  have nonneg: "\<And>ys. - 1 \<le> LastIndex ys c"
  proof -
    fix ys show "- 1 \<le> LastIndex ys c"
      by (induction ys) (auto simp: Let_def)
  qed
  have "LastIndex xs c + 1 \<noteq> - 1" using nonneg [of xs] by arith
  with Cons show ?case by (auto simp: Let_def)
qed

lemma LastIndex_drop:
  "c \<in> set s \<Longrightarrow> \<exists>t. drop (nat (LastIndex s c)) s = c # t \<and> c \<notin> set t"
proof (induction s)
  case Nil
  then show ?case by simp
next
  case (Cons x xs)
  show ?case
  proof (cases "c \<in> set xs")
    case True
    then obtain t where t: "drop (nat (LastIndex xs c)) xs = c # t" "c \<notin> set t"
      using Cons.IH by blast
    from True have ne: "LastIndex xs c \<noteq> - 1" by (simp add: LastIndex_absent)
    have ge: "0 \<le> LastIndex xs c"
    proof (rule ccontr)
      assume "\<not> 0 \<le> LastIndex xs c"
      then have "nat (LastIndex xs c) = 0" by simp
      with t have "xs = c # t" by simp
      then have "LastIndex xs c = (if LastIndex t c \<noteq> - 1 then LastIndex t c + 1 else 0)" by (simp add: Let_def)
      moreover have "LastIndex t c = - 1" using t(2) by (simp add: LastIndex_absent)
      ultimately have "LastIndex xs c = 0" by simp
      with \<open>\<not> 0 \<le> LastIndex xs c\<close> show False by simp
    qed
    then have "nat (LastIndex xs c + 1) = Suc (nat (LastIndex xs c))" by arith
    with ne t show ?thesis by (simp add: Let_def)
  next
    case False
    then have "LastIndex xs c = - 1" by (simp add: LastIndex_absent)
    moreover from False Cons.prems have "x = c" by simp
    ultimately show ?thesis using False by (simp add: Let_def)
  qed
qed

lemma ParseInt_colon: "ParseInt (CHR '':'' # t) = Inl (NumError (CHR '':'' # t) ErrSyntax)"
  by (simp add: ParseInt_def ParseUint_def is_digit_def)

lemma extractHostPort_no_colon:
  "CHR '':'' \<notin> set hostStr \<Longrightarrow> extractHostPort hostStr = (hostStr, 0, None)"
  by (simp add: extractHostPort_def LastIndex_absent)

lemma extractHostPort_colon:
  assumes "CHR '':'' \<in> set hostStr"
  shows "\<exists>t. CHR '':'' \<notin> set t \<and> extractHostPort hostStr =
    ('''', 0, Some (NewError StatusBadRequest (MalformedPortNumber (NumError (CHR '':'' # t) ErrSyntax))))"
proof -
  from assms obtain t where t: "drop (nat (LastIndex hostStr CHR '':'')) hostStr = CHR '':'' # t" "CHR '':'' \<notin> set t"
    using LastIndex_drop by blast
  from assms have "LastIndex hostStr CHR '':'' \<noteq> - 1" by (simp add: LastIndex_absent)
  with t show ?thesis by (simp add: extractHostPort_def ParseInt_colon)
qed

lemma extractHostPort_ok:
  "extractHostPort hostStr = (hostName, port, None) \<Longrightarrow> CHR '':'' \<notin> set hostStr \<and> hostName = hostStr \<and> port = 0"
  using extractHostPort_colon [of hostStr] extractHostPort_no_colon [of hostStr]
  by (cases "CHR '':'' \<in> set hostStr") auto

section \<open>The loop over the rules\<close>

text \<open>
  Rules whose matcher does not match the request are passed over; the two loops of
  \<open>portAllowed\<close> are membership tests; with a port message present neither the port
  block nor \<open>portAllowed\<close> panics, and \<open>resolveHost\<close> panics only on an empty slice
  returned with a nil error.
\<close>

lemma Address_loop_skip:
  "\<forall>q\<in>set pre. \<not> hostMatches reqHost (DnsNameMatcher q) \<Longrightarrow>
   Address_loop lk reqHost hostName port (pre @ rules) = Address_loop lk reqHost hostName port rules"
  by (induction pre) auto

lemma hostMatches_empty: "\<not> hostMatches host ''''"
  by (simp add: hostMatches_def)

lemma Address_loop_drop_unmatched:
  "\<not> hostMatches reqHost (DnsNameMatcher r) \<Longrightarrow>
   Address_loop lk reqHost hostName port (pre @ r # post) = Address_loop lk reqHost hostName port (pre @ post)"
  by (induction pre) (auto split: outcome.splits bool.splits prod.splits option.splits)

lemma AllowedLoop_iff: "AllowedLoop u ps = (u \<in> set ps)"
  by (induction ps) auto

lemma AllowedRangesLoop_iff: "AllowedRangesLoop u rs = (\<exists>r\<in>set rs. From r \<le> u \<and> u \<le> To r)"
  by (induction rs) auto

lemma portForRule_Some_no_panic: "portForRule port (Some p) \<noteq> Panics k"
  by (simp add: Let_def)

lemma portAllowed_Some_no_panic: "portAllowed port (Some p) \<noteq> Panics k"
  by (simp add: Let_def)

lemma resolveHost_panic:
  "(resolveHost lk h = Panics k) = (lk h = ([], None) \<and> k = IndexOutOfRange)"
  by (auto simp: resolveHost_def split: prod.splits option.splits list.splits)

lemma Address_loop_nil_Port:
  "hostMatches reqHost (DnsNameMatcher r) \<Longrightarrow> Port r = None \<Longrightarrow>
   Address_loop lk reqHost hostName port (r # post) = Panics NilDereference"
  by simp

lemma Address_loop_no_nil_panic:
  "\<forall>r\<in>set rules. Port r \<noteq> None \<Longrightarrow>
   Address_loop lk reqHost hostName port rules \<noteq> Panics NilDereference"
proof (induction rules)
  case Nil
  show ?case by simp
next
  case (Cons r rules)
  then obtain p where p: "Port r = Some p" by auto
  from Cons have IH: "Address_loop lk reqHost hostName port rules \<noteq> Panics NilDereference" by simp
  show ?case using p IH
    by (auto simp: Let_def resolveHost_panic split: outcome.splits bool.splits prod.splits option.splits)
qed

lemma Address_loop_no_index_panic:
  "\<forall>h. lk h \<noteq> ([], None) \<Longrightarrow>
   Address_loop lk reqHost hostName port rules \<noteq> Panics IndexOutOfRange"
proof (induction rules)
  case Nil
  show ?case by simp
next
  case (Cons r rules)
  from Cons have IH: "Address_loop lk reqHost hostName port rules \<noteq> Panics IndexOutOfRange" by simp
  show ?case using IH Cons.prems
    by (cases "Port r") (auto simp: Let_def resolveHost_panic split: outcome.splits bool.splits prod.splits option.splits)
qed

section \<open>From the loop to \<open>Address\<close>\<close>

text \<open>
  \<open>Address\<close> is the loop when the target host parses, and the parse error otherwise.
  An address that the loop returns is joined from the empty string that \<open>resolveHost\<close>
  returns beside its error, so it never holds a resolved host.
\<close>

lemma Address_parsed:
  "extractHostPort reqHost = (hostName, port, None) \<Longrightarrow>
   Address lk rules reqHost = Address_loop lk reqHost hostName port rules"
  by (simp add: Address_def)

lemma Address_malformed:
  "extractHostPort reqHost = (hostName, port, Some err) \<Longrightarrow>
   Address lk rules reqHost = Returns ('''', Some err)"
  by (simp add: Address_def)

lemma JoinHostPort_empty: "JoinHostPort '''' port = CHR '':'' # port"
  by (simp add: JoinHostPort_def)

lemma Address_loop_address_without_host:
  "Address_loop lk reqHost hostName port rules = Returns (addr, None) \<Longrightarrow>
   \<exists>pfr. addr = CHR '':'' # FormatInt pfr"
proof (induction rules)
  case Nil
  then show ?case by simp
next
  case (Cons r rules)
  then show ?case
    by (auto simp: resolveHost_def JoinHostPort_def
        split: if_splits outcome.splits bool.splits prod.splits option.splits list.splits)
qed

lemma Address_address_without_host:
  "Address lk rules reqHost = Returns (addr, None) \<Longrightarrow> \<exists>pfr. addr = CHR '':'' # FormatInt pfr"
  by (auto simp: Address_def split: prod.splits option.splits
      dest: Address_loop_address_without_host)

lemma Address_colon_malformed:
  assumes "CHR '':'' \<in> set reqHost"
  shows "\<exists>t. Address lk rules reqHost =
    Returns ('''', Some (NewError StatusBadRequest
      (MalformedPortNumber (NumError (CHR '':'' # t) ErrSyntax))))"
proof -
  from assms obtain t where "extractHostPort reqHost =
      ('''', 0, Some (NewError StatusBadRequest
        (MalformedPortNumber (NumError (CHR '':'' # t) ErrSyntax))))"
    using extractHostPort_colon by blast
  then show ?thesis by (simp add: Address_def)
qed

text \<open>
  The port a request without a port is checked with: for a target host that parses
  without a port, \<open>Address\<close> reports as not allowed, or joins into the address it
  returns, the default port of the first matching rule when that is not 0, and 80 when
  it is.
\<close>

lemma default_port_of_first_matching_rule:
  "(Default p \<noteq> 0 \<longrightarrow> portForRule 0 (Some p) = Returns (uint (Default p)))
   \<and> (Default p = 0 \<longrightarrow> portForRule 0 (Some p) = Returns 80)
   \<and> (extractHostPort reqHost = (hostName, 0, None)
        \<and> (\<forall>q \<in> set pre. \<not> hostMatches reqHost (DnsNameMatcher q))
        \<and> hostMatches reqHost (DnsNameMatcher rule) \<and> Port rule = Some p
        \<and> eff = (if Default p \<noteq> 0 then uint (Default p) else 80) \<longrightarrow>
          (portAllowed eff (Some p) = Returns False \<longrightarrow>
             Address lk (pre @ rule # post) reqHost =
               Returns ('''', Some (NewError 400 (PortNotAllowed eff))))
        \<and> (portAllowed eff (Some p) = Returns True \<and> lk hostName = (addrs, Some e) \<longrightarrow>
             Address lk (pre @ rule # post) reqHost = Returns (CHR '':'' # FormatInt eff, None)))"
proof -
  have a: "Default p \<noteq> 0 \<longrightarrow> portForRule 0 (Some p) = Returns (uint (Default p))"
    by (simp add: Let_def)
  have b: "Default p = 0 \<longrightarrow> portForRule 0 (Some p) = Returns 80"
    by (simp add: Let_def)
  have d: "extractHostPort reqHost = (hostName, 0, None)
        \<and> (\<forall>q \<in> set pre. \<not> hostMatches reqHost (DnsNameMatcher q))
        \<and> hostMatches reqHost (DnsNameMatcher rule) \<and> Port rule = Some p
        \<and> eff = (if Default p \<noteq> 0 then uint (Default p) else 80) \<longrightarrow>
          (portAllowed eff (Some p) = Returns False \<longrightarrow>
             Address lk (pre @ rule # post) reqHost =
               Returns ('''', Some (NewError 400 (PortNotAllowed eff))))
        \<and> (portAllowed eff (Some p) = Returns True \<and> lk hostName = (addrs, Some e) \<longrightarrow>
             Address lk (pre @ rule # post) reqHost = Returns (CHR '':'' # FormatInt eff, None))"
  proof (intro impI, elim conjE)
    assume parsed: "extractHostPort reqHost = (hostName, 0, None)"
      and pre: "\<forall>q \<in> set pre. \<not> hostMatches reqHost (DnsNameMatcher q)"
      and m: "hostMatches reqHost (DnsNameMatcher rule)"
      and p: "Port rule = Some p"
      and eff: "eff = (if Default p \<noteq> 0 then uint (Default p) else 80)"
    have loop: "Address lk (pre @ rule # post) reqHost =
        Address_loop lk reqHost hostName 0 (rule # post)"
      using parsed pre by (simp add: Address_parsed Address_loop_skip)
    have pfr: "portForRule 0 (Port rule) = Returns eff"
      using p eff by (simp add: Let_def)
    have no: "portAllowed eff (Some p) = Returns False \<longrightarrow>
        Address lk (pre @ rule # post) reqHost =
          Returns ('''', Some (NewError 400 (PortNotAllowed eff)))"
      using m p pfr loop by (simp add: StatusBadRequest_def del: portForRule.simps portAllowed.simps)
    have yes: "portAllowed eff (Some p) = Returns True \<and> lk hostName = (addrs, Some e) \<longrightarrow>
        Address lk (pre @ rule # post) reqHost = Returns (CHR '':'' # FormatInt eff, None)"
      using m p pfr loop
      by (simp add: resolveHost_def JoinHostPort_empty del: portForRule.simps portAllowed.simps)
    from no yes show "(portAllowed eff (Some p) = Returns False \<longrightarrow>
             Address lk (pre @ rule # post) reqHost =
               Returns ('''', Some (NewError 400 (PortNotAllowed eff))))
        \<and> (portAllowed eff (Some p) = Returns True \<and> lk hostName = (addrs, Some e) \<longrightarrow>
             Address lk (pre @ rule # post) reqHost = Returns (CHR '':'' # FormatInt eff, None))"
      by blast
  qed
  from a b d show ?thesis by blast
qed

section \<open>The end-to-end scenario\<close>

text \<open>
  Claim C1. With the rule \<open>{dnsNameMatcher: "*.pods.test.local", allowedPortRanges:
  [{1024, 65535}]}\<close> and a lookup that returns \<open>["10.0.0.5"]\<close> and no error, the request
  to \<open>10-0-0-5.pods.test.local:9000\<close> is meant to give the dial address
  \<open>10.0.0.5:9000\<close>. The code gives the bad-request error for a malformed port instead:
  the text handed to \<open>ParseInt\<close> starts at the colon.
\<close>

theorem Address_pods_scenario:
  "Address lookup_ok [pods_rule] ''10-0-0-5.pods.test.local:9000'' =
     Returns ('''', Some (NewError 400
       (MalformedPortNumber (NumError '':9000'' ErrSyntax))))"
  by (simp add: Address_def extractHostPort_def ParseInt_def ParseUint_def is_digit_def
      StatusBadRequest_def)

section \<open>Resolution\<close>

text \<open>
  Claim C2. For a request that a rule matches and whose port the rule allows, a lookup
  that succeeds is meant to give the dial address of the first resolved IP, and a lookup
  that fails the gateway error. The code does the reverse: with the successful lookup the
  rule is passed over and the request ends as "route not found"; with the failing lookup
  it returns an address with an empty host, \<open>:80\<close>, and no error.
\<close>

theorem Address_resolution_inverted:
  "Address lookup_ok [svc_rule] ''svc.test.local'' = Returns ('''', Some ErrRouteNotFound)
   \<and> Address lookup_fails [svc_rule] ''svc.test.local'' = Returns ('':80'', None)"
  by (simp add: Address_def extractHostPort_def hostMatches_def resolveHost_def svc_rule_def
      lookup_ok_def lookup_fails_def JoinHostPort_def FormatInt_def formatBits.simps digits_def)

section \<open>Wildcard matchers\<close>

text \<open>
  Claim C3. The matcher \<open>*.pods.test.local\<close> is meant to match \<open>foo.pods.test.local\<close>
  and not \<open>pods.test.local\<close> or \<open>foo.other.local\<close>. The code compares the host with the
  matcher less its first byte, so it matches \<open>.pods.test.local\<close> only: none of the three
  hosts matches, and the request to \<open>foo.pods.test.local\<close> finds no route.
\<close>

theorem hostMatches_wildcard_pods:
  "hostMatches ''foo.pods.test.local'' ''*.pods.test.local'' = False
   \<and> hostMatches ''pods.test.local'' ''*.pods.test.local'' = False
   \<and> hostMatches ''foo.other.local'' ''*.pods.test.local'' = False
   \<and> hostMatches ''.pods.test.local'' ''*.pods.test.local'' = True
   \<and> Address lookup_ok [pods_rule] ''foo.pods.test.local'' = Returns ('''', Some ErrRouteNotFound)"
  by (simp add: hostMatches_def Address_def extractHostPort_def pods_rule_def)

section \<open>Host and port of the request\<close>

text \<open>
  Claim C4. A target host without a colon parses to itself and no port; one with a colon
  and numeric port text is meant to parse to the host and that port, and only
  non-numeric port text is meant to fail. The code fails on \<open>example.local:8080\<close> as it
  does on \<open>example.local:http\<close>, with the error for a malformed port.
\<close>

theorem extractHostPort_numeric_port:
  "extractHostPort ''example.local:8080'' =
     ('''', 0, Some (NewError 400 (MalformedPortNumber (NumError '':8080'' ErrSyntax))))
   \<and> extractHostPort ''example.local'' = (''example.local'', 0, None)
   \<and> extractHostPort ''example.local:http'' =
     ('''', 0, Some (NewError 400 (MalformedPortNumber (NumError '':http'' ErrSyntax))))"
  by (simp add: extractHostPort_def ParseInt_def ParseUint_def is_digit_def StatusBadRequest_def)

section \<open>The director\<close>

text \<open>
  Claim C5. The director asks the router first. When the router returns an error, the
  director returns that error, the pool is not called and the world is as the router left
  it. When the router returns a backend name, the pool is asked once for that name, and
  the director returns the pool's error, or the pool's connection and no error. In each
  case the router is called once and nothing is called again.
\<close>

theorem director_route_then_conn:
  "(router fullMethodName w = ((beName, Some err), w1) \<longrightarrow>
      New pool router fullMethodName (w, calls) =
        ((None, Some err), (w1, calls @ [RouteCall fullMethodName])))
   \<and> (router fullMethodName w = ((beName, None), w1) \<and> pool beName w1 = ((cc, Some err), w2) \<longrightarrow>
      New pool router fullMethodName (w, calls) =
        ((None, Some err),
         (w2, calls @ [RouteCall fullMethodName, AddFieldsCall beName, ConnCall beName])))
   \<and> (router fullMethodName w = ((beName, None), w1) \<and> pool beName w1 = ((cc, None), w2) \<longrightarrow>
      New pool router fullMethodName (w, calls) =
        ((cc, None),
         (w2, calls @ [RouteCall fullMethodName, AddFieldsCall beName, ConnCall beName])))"
  by (simp add: New_def)

theorem director_route_then_conn_witness:
  "New counting_pool static_router ''/other'' (0, []) =
     ((None, Some ''unknown route to call''), (0, [RouteCall ''/other'']))
   \<and> New failing_pool static_router ''/pkg.Service/Method'' (0, []) =
     ((None, Some ''no live targets''),
      (1, [RouteCall ''/pkg.Service/Method'', AddFieldsCall ''backend'', ConnCall ''backend'']))
   \<and> New counting_pool static_router ''/pkg.Service/Method'' (0, []) =
     ((Some ''conn'', None),
      (1, [RouteCall ''/pkg.Service/Method'', AddFieldsCall ''backend'', ConnCall ''backend'']))"
  using director_route_then_conn [where router = static_router and fullMethodName = "''/other''"
      and w = 0 and beName = "''''" and err = "''unknown route to call''" and ?w1.0 = 0
      and pool = counting_pool and calls = "[]"]
    director_route_then_conn [where router = static_router
      and fullMethodName = "''/pkg.Service/Method''" and w = 0 and beName = "''backend''"
      and err = "''no live targets''" and ?w1.0 = 0 and pool = failing_pool and cc = None
      and ?w2.0 = 1 and calls = "[]"]
    director_route_then_conn [where router = static_router
      and fullMethodName = "''/pkg.Service/Method''" and w = 0 and beName = "''backend''"
      and ?w1.0 = 0 and pool = counting_pool and cc = "Some ''conn''" and ?w2.0 = 1
      and calls = "[]"]
  by (simp add: static_router_def counting_pool_def failing_pool_def)

section \<open>Port authorization\<close>

text \<open>
  Claim C6. A port message with the range 1024 to 65535 and no explicit ports accepts
  port 8080 and rejects port 80; one with the explicit port 443 only rejects 8443. In
  general a port is allowed exactly when, as a \<open>uint32\<close>, it is one of the explicit
  ports or lies in one of the ranges, both ends included.
\<close>

theorem portAllowed_ranges_and_ports:
  "portAllowed 8080 (Some high_ports) = Returns True
   \<and> portAllowed 80 (Some high_ports) = Returns False
   \<and> portAllowed 8443 (Some only_443) = Returns False
   \<and> portAllowed port (Some portRule) =
       Returns (word_of_int port \<in> set (Allowed portRule)
         \<or> (\<exists>r \<in> set (AllowedRanges portRule).
               From r \<le> word_of_int port \<and> word_of_int port \<le> To r))"
proof -
  have a: "portAllowed 8080 (Some high_ports) = Returns True"
    by (simp add: high_ports_def)
  have b: "portAllowed 80 (Some high_ports) = Returns False"
    by (simp add: high_ports_def)
  have c: "portAllowed 8443 (Some only_443) = Returns False"
    by (simp add: only_443_def)
  have d: "portAllowed port (Some portRule) =
       Returns (word_of_int port \<in> set (Allowed portRule)
         \<or> (\<exists>r \<in> set (AllowedRanges portRule).
               From r \<le> word_of_int port \<and> word_of_int port \<le> To r))"
    by (simp add: Let_def AllowedLoop_iff AllowedRangesLoop_iff)
  from a b c d show ?thesis by blast
qed

theorem portAllowed_ranges_and_ports_witness:
  "portAllowed 65535 (Some high_ports) = Returns True
   \<and> portAllowed 1024 (Some high_ports) = Returns True
   \<and> portAllowed 1023 (Some high_ports) = Returns False
   \<and> portAllowed 443 (Some only_443) = Returns True"
  using portAllowed_ranges_and_ports [of 65535 high_ports]
    portAllowed_ranges_and_ports [of 1024 high_ports]
    portAllowed_ranges_and_ports [of 1023 high_ports]
    portAllowed_ranges_and_ports [of 443 only_443]
  by (simp add: high_ports_def only_443_def)

section \<open>The effective port\<close>

text \<open>
  Claim C7. A request without an explicit port is meant to be checked with the default
  port of the matching rule, or with 80 when that default is 0, and a request that
  supplies a port with that port unchanged. The defaulting is what the code does
  (\<open>default_port_of_first_matching_rule\<close>). A port of the request is never used: the
  request to \<open>svc.test.local:9000\<close>, under a rule that the code matches with it and that
  allows port 9000, is answered with the error for a malformed port before any rule is
  looked at, where port 9000 unchanged would give the address \<open>:9000\<close> with the failing
  lookup. No request reaches the rules with a port other than 0.
\<close>

theorem Address_request_port_rejected:
  "hostMatches ''svc.test.local:9000'' (DnsNameMatcher svc_9000_rule) = True
   \<and> portAllowed 9000 (Port svc_9000_rule) = Returns True
   \<and> Address lookup_fails [svc_9000_rule] ''svc.test.local:9000'' =
       Returns ('''', Some (NewError 400
         (MalformedPortNumber (NumError '':9000'' ErrSyntax))))
   \<and> Address lookup_fails [svc_high_rule] ''svc.test.local:9000'' =
       Returns ('''', Some (NewError 400
         (MalformedPortNumber (NumError '':9000'' ErrSyntax))))
   \<and> Address_loop lookup_fails ''svc.test.local:9000'' ''svc.test.local'' 9000 [svc_9000_rule] =
       Returns ('':9000'', None)"
  by (simp add: svc_9000_rule_def svc_high_rule_def high_ports_def lookup_fails_def
      hostMatches_def Address_def extractHostPort_def ParseInt_def ParseUint_def is_digit_def
      StatusBadRequest_def resolveHost_def JoinHostPort_def FormatInt_def formatBits.simps
      digits_def)

section \<open>Rules that cannot match\<close>

text \<open>
  Claim C8. A rule whose \<open>DnsNameMatcher\<close> is the empty string matches no request host,
  the empty host included, and \<open>Address\<close> gives the same result with the rule in the
  list, at any place, as without it.
\<close>

theorem empty_matcher_never_matches:
  "\<not> hostMatches host ''''
   \<and> (DnsNameMatcher rule = '''' \<longrightarrow>
        Address lk (pre @ rule # post) reqHost = Address lk (pre @ post) reqHost)"
proof -
  have a: "\<not> hostMatches host ''''"
    by (rule hostMatches_empty)
  have b: "DnsNameMatcher rule = '''' \<longrightarrow>
      Address lk (pre @ rule # post) reqHost = Address lk (pre @ post) reqHost"
  proof
    assume "DnsNameMatcher rule = ''''"
    then have "\<not> hostMatches reqHost (DnsNameMatcher rule)"
      by (simp add: hostMatches_empty)
    then show "Address lk (pre @ rule # post) reqHost = Address lk (pre @ post) reqHost"
      by (simp add: Address_def Address_loop_drop_unmatched split: prod.splits option.splits)
  qed
  from a b show ?thesis by blast
qed

theorem empty_matcher_never_matches_witness:
  "Address lookup_fails [other_rule, empty_matcher_rule, svc_rule] '''' =
     Address lookup_fails [other_rule, svc_rule] ''''
   \<and> Address lookup_fails [other_rule, svc_rule] '''' = Returns ('''', Some ErrRouteNotFound)
   \<and> Address lookup_fails [other_rule, empty_matcher_rule, svc_rule] ''svc.test.local'' =
     Returns ('':80'', None)"
  using empty_matcher_never_matches [where rule = empty_matcher_rule and lk = lookup_fails
      and pre = "[other_rule]" and post = "[svc_rule]" and reqHost = "''''"]
    empty_matcher_never_matches [where rule = empty_matcher_rule and lk = lookup_fails
      and pre = "[other_rule]" and post = "[svc_rule]" and reqHost = "''svc.test.local''"]
  by (simp add: empty_matcher_rule_def other_rule_def svc_rule_def lookup_fails_def Address_def
      extractHostPort_def hostMatches_def resolveHost_def JoinHostPort_def FormatInt_def
      formatBits.simps digits_def)

section \<open>Panics\<close>

text \<open>
  Claim C9, as it is worded, has \<open>Address\<close> panic whenever the first rule whose matcher
  matches the request has no port message. The target host is parsed before any rule is
  looked at: for the host \<open>svc.test.local:http\<close>, whose port text is no number, and a
  rule without a port message whose matcher is that very text, \<open>Address\<close> returns the
  error for a malformed port and does not panic.
\<close>

theorem Address_nil_Port_counterexample:
  "hostMatches ''svc.test.local:http'' (DnsNameMatcher svc_http_nil_rule) = True
   \<and> Port svc_http_nil_rule = None
   \<and> Address lookup_ok [svc_http_nil_rule] ''svc.test.local:http'' =
       Returns ('''', Some (NewError 400
         (MalformedPortNumber (NumError '':http'' ErrSyntax))))"
  by (simp add: svc_http_nil_rule_def hostMatches_def Address_def extractHostPort_def
      ParseInt_def ParseUint_def is_digit_def StatusBadRequest_def)

text \<open>
  Claim C9, amended. \<open>Address\<close> does not return for every rule list. When the target
  host of the request parses without error and the first rule whose matcher matches the
  request has no port message, \<open>Address\<close> panics with a nil dereference instead of
  returning an error. When every rule of the list carries a port message, \<open>Address\<close>
  never panics with a nil dereference.
\<close>

theorem Address_nil_Port_panics:
  "(extractHostPort reqHost = (hostName, port, None)
      \<and> (\<forall>q \<in> set pre. \<not> hostMatches reqHost (DnsNameMatcher q))
      \<and> hostMatches reqHost (DnsNameMatcher rule) \<and> Port rule = None \<longrightarrow>
        Address lk (pre @ rule # post) reqHost = Panics NilDereference)
   \<and> ((\<forall>r \<in> set rules. Port r \<noteq> None) \<longrightarrow>
        Address lk rules reqHost \<noteq> Panics NilDereference)"
proof -
  have a: "extractHostPort reqHost = (hostName, port, None)
      \<and> (\<forall>q \<in> set pre. \<not> hostMatches reqHost (DnsNameMatcher q))
      \<and> hostMatches reqHost (DnsNameMatcher rule) \<and> Port rule = None \<longrightarrow>
        Address lk (pre @ rule # post) reqHost = Panics NilDereference"
  proof (intro impI, elim conjE)
    assume parsed: "extractHostPort reqHost = (hostName, port, None)"
      and pre: "\<forall>q \<in> set pre. \<not> hostMatches reqHost (DnsNameMatcher q)"
      and m: "hostMatches reqHost (DnsNameMatcher rule)"
      and p: "Port rule = None"
    have "Address_loop lk reqHost hostName port (pre @ rule # post) = Panics NilDereference"
      using pre m p by (simp add: Address_loop_skip Address_loop_nil_Port)
    then show "Address lk (pre @ rule # post) reqHost = Panics NilDereference"
      using parsed by (simp add: Address_parsed)
  qed
  have b: "(\<forall>r \<in> set rules. Port r \<noteq> None) \<longrightarrow>
        Address lk rules reqHost \<noteq> Panics NilDereference"
    by (simp add: Address_def Address_loop_no_nil_panic split: prod.splits option.splits)
  from a b show ?thesis by blast
qed

theorem Address_nil_Port_panics_witness:
  "Address lookup_ok [other_rule, nil_port_rule, svc_rule] ''svc.test.local'' =
     Panics NilDereference
   \<and> Address lookup_ok [svc_rule, pods_rule] ''svc.test.local'' \<noteq> Panics NilDereference"
  using Address_nil_Port_panics [where pre = "[other_rule]" and reqHost = "''svc.test.local''"
      and rule = nil_port_rule and lk = lookup_ok and hostName = "''svc.test.local''"
      and port = 0 and post = "[svc_rule]" and rules = "[svc_rule, pods_rule]"]
  by (simp add: other_rule_def nil_port_rule_def svc_rule_def pods_rule_def hostMatches_def
      extractHostPort_def)

text \<open>
  Claim C10. \<open>resolveHost\<close> takes the first element of the lookup result unchecked: on
  an empty slice with a nil error it panics with an index out of range, and on every
  other lookup result it returns. \<open>Address\<close> panics with it when it gets as far as the
  lookup: the target host parses, and the first matching rule allows the port. When a
  lookup without error always returns at least one address, \<open>Address\<close> never panics
  with an index out of range.
\<close>

theorem resolveHost_empty_lookup_panics:
  "(lk hostStr = ([], None) \<longrightarrow> resolveHost lk hostStr = Panics IndexOutOfRange)
   \<and> (lk hostStr \<noteq> ([], None) \<longrightarrow> (\<exists>res. resolveHost lk hostStr = Returns res))
   \<and> (extractHostPort reqHost = (hostName, port, None)
        \<and> (\<forall>q \<in> set pre. \<not> hostMatches reqHost (DnsNameMatcher q))
        \<and> hostMatches reqHost (DnsNameMatcher rule)
        \<and> portForRule port (Port rule) = Returns pfr
        \<and> portAllowed pfr (Port rule) = Returns True
        \<and> lk hostName = ([], None) \<longrightarrow>
          Address lk (pre @ rule # post) reqHost = Panics IndexOutOfRange)
   \<and> ((\<forall>h addrs. lk h = (addrs, None) \<longrightarrow> addrs \<noteq> []) \<longrightarrow>
        Address lk rules reqHost \<noteq> Panics IndexOutOfRange)"
proof -
  have a: "lk hostStr = ([], None) \<longrightarrow> resolveHost lk hostStr = Panics IndexOutOfRange"
    by (simp add: resolveHost_panic)
  have b: "lk hostStr \<noteq> ([], None) \<longrightarrow> (\<exists>res. resolveHost lk hostStr = Returns res)"
  proof
    assume "lk hostStr \<noteq> ([], None)"
    then have "\<And>k. resolveHost lk hostStr \<noteq> Panics k"
      by (simp add: resolveHost_panic)
    then show "\<exists>res. resolveHost lk hostStr = Returns res"
      by (cases "resolveHost lk hostStr") auto
  qed
  have c: "extractHostPort reqHost = (hostName, port, None)
        \<and> (\<forall>q \<in> set pre. \<not> hostMatches reqHost (DnsNameMatcher q))
        \<and> hostMatches reqHost (DnsNameMatcher rule)
        \<and> portForRule port (Port rule) = Returns pfr
        \<and> portAllowed pfr (Port rule) = Returns True
        \<and> lk hostName = ([], None) \<longrightarrow>
          Address lk (pre @ rule # post) reqHost = Panics IndexOutOfRange"
  proof (intro impI, elim conjE)
    assume parsed: "extractHostPort reqHost = (hostName, port, None)"
      and pre: "\<forall>q \<in> set pre. \<not> hostMatches reqHost (DnsNameMatcher q)"
      and m: "hostMatches reqHost (DnsNameMatcher rule)"
      and pfr: "portForRule port (Port rule) = Returns pfr"
      and ok: "portAllowed pfr (Port rule) = Returns True"
      and empty: "lk hostName = ([], None)"
    have "resolveHost lk hostName = Panics IndexOutOfRange"
      using empty by (simp add: resolveHost_panic)
    then have "Address_loop lk reqHost hostName port (rule # post) = Panics IndexOutOfRange"
      using m pfr ok by (simp del: portForRule.simps portAllowed.simps)
    then show "Address lk (pre @ rule # post) reqHost = Panics IndexOutOfRange"
      using parsed pre by (simp add: Address_parsed Address_loop_skip)
  qed
  have d: "(\<forall>h addrs. lk h = (addrs, None) \<longrightarrow> addrs \<noteq> []) \<longrightarrow>
        Address lk rules reqHost \<noteq> Panics IndexOutOfRange"
  proof
    assume "\<forall>h addrs. lk h = (addrs, None) \<longrightarrow> addrs \<noteq> []"
    then have "\<forall>h. lk h \<noteq> ([], None)" by blast
    then show "Address lk rules reqHost \<noteq> Panics IndexOutOfRange"
      by (simp add: Address_def Address_loop_no_index_panic split: prod.splits option.splits)
  qed
  from a b c d show ?thesis by blast
qed

theorem resolveHost_empty_lookup_panics_witness:
  "resolveHost lookup_empty ''svc.test.local'' = Panics IndexOutOfRange
   \<and> resolveHost lookup_ok ''svc.test.local'' = Returns (''10.0.0.5'', None)
   \<and> Address lookup_empty [other_rule, svc_rule] ''svc.test.local'' = Panics IndexOutOfRange
   \<and> Address lookup_ok [other_rule, svc_rule] ''svc.test.local'' \<noteq> Panics IndexOutOfRange"
  using resolveHost_empty_lookup_panics [where lk = lookup_empty and hostStr = "''svc.test.local''"
      and reqHost = "''svc.test.local''" and hostName = "''svc.test.local''" and port = 0
      and pre = "[other_rule]" and rule = svc_rule and pfr = 80 and post = "[]"]
    resolveHost_empty_lookup_panics [where lk = lookup_ok and hostStr = "''svc.test.local''"
      and rules = "[other_rule, svc_rule]" and reqHost = "''svc.test.local''"]
  by (simp add: lookup_empty_def lookup_ok_def other_rule_def svc_rule_def hostMatches_def
      extractHostPort_def resolveHost_def)

end
